theory Spec2Isabelle
  imports Complex_Main
begin

section \<open>The handbook agent of 3-search-handbook.py\<close>

text \<open>
  The script asks a hosted language model a question, lets the model request the one
  local tool \<open>search_handbook\<close>, and parses the model's last reply into a
  \<open>HandbookAnswer\<close>. Everything the script does not define itself is a field of the
  environment \<open>env\<close>: the completion endpoint, \<open>json.loads\<close>, the schema pydantic
  generates, and the state of the handbook file. The theorems hold for every environment.
\<close>

subsection \<open>Python values and exceptions\<close>

text \<open>
  What \<open>json.loads\<close> returns: \<open>None\<close>, \<open>bool\<close>, \<open>int\<close>, \<open>float\<close>, \<open>str\<close>,
  \<open>list\<close> and \<open>dict\<close> (string keys, in insertion order, looked up with \<open>map_of\<close>).
\<close>

datatype json =
    PyNone
  | PyBool bool
  | PyInt int
  | PyFloat real
  | PyStr string
  | PyList "json list"
  | PyDict "(string \<times> json) list"

text \<open>
  The exceptions that can leave \<open>ask_agent\<close>. \<open>APIError\<close> stands for whatever
  \<open>client.chat.completions.create\<close> raises, \<open>OSError\<close> for what
  \<open>HANDBOOK_PATH.exists()\<close> raises (\<open>PermissionError\<close> is one), \<open>ValueError\<close>
  carries the message of line 144, \<open>ValidationError\<close> is pydantic's.
\<close>

datatype error =
    APIError string
  | OSError string
  | IndexError
  | TypeError
  | JSONDecodeError
  | ValueError string
  | ValidationError

subsection \<open>The output models (lines 23 to 32)\<close>

record Citation =
  citation_text :: string
  citation_section :: string

record HandbookAnswer =
  answer :: string
  citations :: "Citation list"

fun as_str :: "json option \<Rightarrow> string option" where
  "as_str (Some (PyStr s)) = Some s"
| "as_str _ = None"

fun as_list :: "json option \<Rightarrow> json list option" where
  "as_list (Some (PyList xs)) = Some xs"
| "as_list _ = None"

text \<open>
  \<open>Citation\<close> has two required \<open>str\<close> fields; a value validates when it is a dict that
  holds a string under each. Other keys are ignored, a number is not turned into a string.
\<close>

fun validate_Citation :: "json \<Rightarrow> Citation option" where
  "validate_Citation (PyDict d) =
     (case as_str (map_of d ''text'') of
        None \<Rightarrow> None
      | Some t \<Rightarrow>
          (case as_str (map_of d ''section'') of
             None \<Rightarrow> None
           | Some s \<Rightarrow> Some \<lparr>citation_text = t, citation_section = s\<rparr>))"
| "validate_Citation _ = None"

text \<open>
  \<open>HandbookAnswer.model_validate\<close>: a required \<open>str\<close> and a required list whose items
  all validate as \<open>Citation\<close>. The class states no bound on the list's length and none on
  the strings; "2-4" appears only in a field description.
\<close>

fun model_validate :: "json \<Rightarrow> error + HandbookAnswer" where
  "model_validate (PyDict d) =
     (case as_str (map_of d ''answer'') of
        None \<Rightarrow> Inl ValidationError
      | Some a \<Rightarrow>
          (case as_list (map_of d ''citations'') of
             None \<Rightarrow> Inl ValidationError
           | Some items \<Rightarrow>
               (case those (map validate_Citation items) of
                  None \<Rightarrow> Inl ValidationError
                | Some cs \<Rightarrow> Inr \<lparr>answer = a, citations = cs\<rparr>)))"
| "model_validate _ = Inl ValidationError"

subsection \<open>The completion endpoint's data\<close>

text \<open>
  A tool call of the SDK, flattened: \<open>tool_call.id\<close>, \<open>tool_call.function.name\<close> and
  \<open>tool_call.function.arguments\<close> (a string of JSON text).
\<close>

record ToolCall =
  tc_id :: string
  tc_name :: string
  tc_arguments :: string

record ChatCompletionMessage =
  content :: "string option"
  tool_calls :: "ToolCall list option"

text \<open>\<open>choices\<close> holds \<open>choice.message\<close> of every choice.\<close>

record ChatCompletion =
  choices :: "ChatCompletionMessage list"

text \<open>
  An entry of \<open>messages\<close> is a dict literal of the script (all of its values are strings)
  or the SDK's message object, appended as it came; the SDK types that object's role as
  the literal \<open>assistant\<close>.
\<close>

datatype message =
    Dict "(string \<times> string) list"
  | Response ChatCompletionMessage

fun msg_role :: "message \<Rightarrow> string option" where
  "msg_role (Dict d) = map_of d ''role''"
| "msg_role (Response m) = Some ''assistant''"

text \<open>The keyword arguments of one \<open>create\<close> call; \<open>None\<close> is an argument not passed.\<close>

record request =
  req_model :: string
  req_messages :: "message list"
  req_tools :: "json option"
  req_tool_choice :: "string option"
  req_system_prompt :: "string option"
  req_response_format :: "json option"
  req_temperature :: "real option"

text \<open>
  The environment of one call of \<open>ask_agent\<close>:
  \<^item> \<open>create\<close> is \<open>client.chat.completions.create\<close>, \<open>Inl\<close> the text of an exception;
  \<open>ask_agent\<close> never sends the same request twice, so a function of the request is general;
  \<^item> \<open>json_loads\<close> is \<open>json.loads\<close> on a string, \<open>None\<close> when it raises;
  \<^item> \<open>model_json_schema\<close> is \<open>HandbookAnswer.model_json_schema()\<close>;
  \<^item> \<open>handbook_exists\<close> is \<open>HANDBOOK_PATH.exists()\<close>: \<open>Inr\<close> its answer, or
  \<open>Inl\<close> the text of the \<open>OSError\<close> it raises (pathlib turns a missing file or
  directory into \<open>False\<close> and lets other errors through, a directory that may not be
  searched among them);
  \<^item> \<open>handbook_read_text\<close> is \<open>HANDBOOK_PATH.read_text(encoding="utf-8")\<close>, \<open>Inl\<close> the
  text of the exception it raises.

  The handbook file is taken to stay as it is while one call of \<open>ask_agent\<close> runs.
\<close>

record env =
  create :: "request \<Rightarrow> string + ChatCompletion"
  json_loads :: "string \<Rightarrow> json option"
  model_json_schema :: json
  handbook_exists :: "string + bool"
  handbook_read_text :: "string + string"

subsection \<open>Module constants\<close>

definition MODEL :: string where
  "MODEL = ''llama-3.3-70b-versatile''"

definition HANDBOOK_ANSWER_SCHEMA :: "env \<Rightarrow> json" where
  "HANDBOOK_ANSWER_SCHEMA e = model_json_schema e"

definition tools :: json where
  "tools = PyList [PyDict
     [(''type'', PyStr ''function''),
      (''function'', PyDict
        [(''name'', PyStr ''search_handbook''),
         (''description'', PyStr ''Retrieve the AI implementation handbook content. Use this when the user asks questions about AI implementation requirements, regulations, or procedures for Dutch government organizations.''),
         (''parameters'', PyDict
           [(''type'', PyStr ''object''),
            (''properties'', PyDict
              [(''query'', PyDict
                 [(''type'', PyStr ''string''),
                  (''description'', PyStr ''The user's question or search query.'')])]),
            (''required'', PyList [PyStr ''query''])])])]]"

subsection \<open>The tool (lines 42 to 60) and the registry (lines 90 to 92)\<close>

text \<open>
  A file reported missing and a failed read both become a string. The test of line 53
  stands before the \<open>try\<close>, so an exception of \<open>exists()\<close> leaves the function.
  \<open>search_handbook\<close> does not look at \<open>query\<close>, which Python leaves untyped at run
  time.
\<close>

definition search_handbook :: "env \<Rightarrow> json \<Rightarrow> error + string" where
  "search_handbook e query =
     (case handbook_exists e of
        Inl exn \<Rightarrow> Inl (OSError exn)
      | Inr found \<Rightarrow>
          if \<not> found then Inr ''ERROR: Handbook file not found at expected path.''
          else (case handbook_read_text e of
                  Inr handbook_content \<Rightarrow> Inr handbook_content
                | Inl exn \<Rightarrow> Inr (''ERROR: Could not read handbook file: '' @ exn)))"

text \<open>
  \<open>search_handbook(**function_args)\<close>: Python raises \<open>TypeError\<close> when the value is not
  a mapping, when \<open>query\<close> is missing, and when another keyword is present; otherwise
  the call is \<open>search_handbook\<close>'s.
\<close>

definition call_search_handbook :: "env \<Rightarrow> json \<Rightarrow> error + string" where
  "call_search_handbook e function_args =
     (case function_args of
        PyDict kwargs \<Rightarrow>
          (case map_of kwargs ''query'' of
             None \<Rightarrow> Inl TypeError
           | Some query \<Rightarrow>
               if list_all (\<lambda>kv. fst kv = ''query'') kwargs
               then search_handbook e query
               else Inl TypeError)
      | _ \<Rightarrow> Inl TypeError)"

definition AVAILABLE_FUNCTIONS :: "string \<rightharpoonup> (env \<Rightarrow> json \<Rightarrow> error + string)" where
  "AVAILABLE_FUNCTIONS = map_of [(''search_handbook'', call_search_handbook)]"

subsection \<open>ask_agent (lines 100 to 182)\<close>

definition SYSTEM_PROMPT :: string where
  "SYSTEM_PROMPT = ''You are a helpful assistant for Dutch government organizations. You can help answer questions about AI implementation policies and regulations by using the 'search_handbook' tool. If asked what you can do, simply explain your capabilities without searching the handbook. Your final output MUST be a JSON object conforming to the HandbookAnswer schema.''"

definition FINAL_INSTRUCTION :: string where
  "FINAL_INSTRUCTION = '' Use the retrieved handbook content to answer the question. Provide a clear, comprehensive answer. Include only the most important citations (2-4 maximum) that reference the primary sections where the key information comes from. Each citation should include a brief text excerpt and the section number (e.g., '2.1', '3.2'). Do not cite every detail - only cite the main sources.''"

definition DIRECT_INSTRUCTION :: string where
  "DIRECT_INSTRUCTION = '' Answer directly. Since you did not use the tool, return an empty list for 'citations'.''"

definition user_message :: "string \<Rightarrow> message" where
  "user_message query = Dict [(''role'', ''user''), (''content'', query)]"

definition tool_message :: "ToolCall \<Rightarrow> string \<Rightarrow> message" where
  "tool_message tool_call function_response_text =
     Dict [(''tool_call_id'', tc_id tool_call),
           (''role'', ''tool''),
           (''name'', tc_name tool_call),
           (''content'', function_response_text)]"

text \<open>Lines 107 to 113.\<close>

definition initial_request :: "string \<Rightarrow> request" where
  "initial_request query =
     \<lparr>req_model = MODEL,
      req_messages = [user_message query],
      req_tools = Some tools,
      req_tool_choice = Some ''auto'',
      req_system_prompt = Some SYSTEM_PROMPT,
      req_response_format = None,
      req_temperature = None\<rparr>"

definition response_format :: "env \<Rightarrow> json" where
  "response_format e =
     PyDict [(''type'', PyStr ''json_object''), (''schema'', HANDBOOK_ANSWER_SCHEMA e)]"

text \<open>Lines 149 to 158.\<close>

definition final_request :: "env \<Rightarrow> message list \<Rightarrow> request" where
  "final_request e messages =
     \<lparr>req_model = MODEL,
      req_messages = messages,
      req_tools = None,
      req_tool_choice = None,
      req_system_prompt = Some (SYSTEM_PROMPT @ FINAL_INSTRUCTION),
      req_response_format = Some (response_format e),
      req_temperature = Some 0\<rparr>"

text \<open>Lines 170 to 179.\<close>

definition direct_request :: "env \<Rightarrow> message list \<Rightarrow> request" where
  "direct_request e messages =
     \<lparr>req_model = MODEL,
      req_messages = messages,
      req_tools = None,
      req_tool_choice = None,
      req_system_prompt = Some (SYSTEM_PROMPT @ DIRECT_INSTRUCTION),
      req_response_format = Some (response_format e),
      req_temperature = Some 0\<rparr>"

text \<open>
  The loop of lines 124 to 144 over the tool calls that are left, with the messages so
  far. Each round parses the arguments first, then looks the name up, then calls the
  function and appends its result. The first exception ends the loop.
\<close>

fun run_tool_calls :: "env \<Rightarrow> message list \<Rightarrow> ToolCall list \<Rightarrow> error + message list" where
  "run_tool_calls e messages [] = Inr messages"
| "run_tool_calls e messages (tool_call # rest) =
     (case json_loads e (tc_arguments tool_call) of
        None \<Rightarrow> Inl JSONDecodeError
      | Some function_args \<Rightarrow>
          (case AVAILABLE_FUNCTIONS (tc_name tool_call) of
             Some function_to_call \<Rightarrow>
               (case function_to_call e function_args of
                  Inl exn \<Rightarrow> Inl exn
                | Inr function_response_text \<Rightarrow>
                    run_tool_calls e
                      (messages @ [tool_message tool_call function_response_text]) rest)
           | None \<Rightarrow> Inl (ValueError (''Unknown function: '' @ tc_name tool_call))))"

text \<open>
  Lines 161 to 163 and 180 to 182: \<open>choices[0].message.content\<close>, \<open>json.loads\<close>,
  \<open>model_validate\<close>. \<open>json.loads(None)\<close> raises \<open>TypeError\<close>.
\<close>

definition parse_answer :: "env \<Rightarrow> ChatCompletion \<Rightarrow> error + HandbookAnswer" where
  "parse_answer e completion =
     (case choices completion of
        [] \<Rightarrow> Inl IndexError
      | m # _ \<Rightarrow>
          (case content m of
             None \<Rightarrow> Inl TypeError
           | Some json_string \<Rightarrow>
               (case json_loads e json_string of
                  None \<Rightarrow> Inl JSONDecodeError
                | Some parsed_data \<Rightarrow> model_validate parsed_data)))"

definition structured_answer :: "env \<Rightarrow> request \<Rightarrow> error + HandbookAnswer" where
  "structured_answer e r =
     (case create e r of
        Inl exn \<Rightarrow> Inl (APIError exn)
      | Inr completion \<Rightarrow> parse_answer e completion)"

text \<open>Python's truth value of \<open>response_message.tool_calls\<close> (line 118).\<close>

fun requested_calls :: "ToolCall list option \<Rightarrow> ToolCall list" where
  "requested_calls None = []"
| "requested_calls (Some tcs) = tcs"

text \<open>
  \<open>ask_agent\<close> returns the completion requests it issued, in order, and its outcome
  (\<open>Inl\<close> the exception that left it). The \<open>print\<close> calls are left out: they write to
  standard output and no value depends on them.
\<close>

definition ask_agent :: "env \<Rightarrow> string \<Rightarrow> request list \<times> (error + HandbookAnswer)" where
  "ask_agent e query =
     (let messages = [user_message query] in
      case create e (initial_request query) of
        Inl exn \<Rightarrow> ([initial_request query], Inl (APIError exn))
      | Inr initial_response \<Rightarrow>
          (case choices initial_response of
             [] \<Rightarrow> ([initial_request query], Inl IndexError)
           | response_message # _ \<Rightarrow>
               if requested_calls (tool_calls response_message) \<noteq> [] then
                 (case run_tool_calls e (messages @ [Response response_message])
                         (requested_calls (tool_calls response_message)) of
                    Inl exn \<Rightarrow> ([initial_request query], Inl exn)
                  | Inr messages' \<Rightarrow>
                      ([initial_request query, final_request e messages'],
                       structured_answer e (final_request e messages')))
               else
                 ([initial_request query, direct_request e messages],
                  structured_answer e (direct_request e messages))))"



text \<open>
  A tool call that the loop can carry out: it names \<open>search_handbook\<close> and its
  arguments are the JSON text of a dict whose only key is \<open>query\<close>.
\<close>

definition well_formed_call :: "env \<Rightarrow> ToolCall \<Rightarrow> bool" where
  "well_formed_call e tool_call =
     (tc_name tool_call = ''search_handbook'' \<and>
      (case json_loads e (tc_arguments tool_call) of
         Some (PyDict kwargs) \<Rightarrow> map fst kwargs = [''query'']
       | _ \<Rightarrow> False))"

subsection \<open>Scenarios\<close>

text \<open>
  Concrete environments for running \<open>ask_agent\<close>. \<open>scenario_loads\<close> agrees with
  \<open>json.loads\<close> on the texts it lists and rejects every other text; the endpoint of
  \<open>scenario\<close> answers the request without a response format with \<open>first\<close> and every
  other request with the content \<open>last_content\<close>; \<open>exists()\<close> answers \<open>file_exists\<close>.
\<close>

definition query_args :: string where
  "query_args = ''{\"query\": \"IAMA\"}''"

definition empty_args :: string where
  "empty_args = ''{}''"

definition answer_no_citations :: string where
  "answer_no_citations = ''{\"answer\": \"Yes.\", \"citations\": []}''"

definition answer_blank_citation :: string where
  "answer_blank_citation = ''{\"answer\": \"Yes.\", \"citations\": [{\"text\": \"\", \"section\": \"\"}]}''"

definition answer_one_citation :: string where
  "answer_one_citation = ''{\"answer\": \"I search.\", \"citations\": [{\"text\": \"Register\", \"section\": \"2.1\"}]}''"

definition answer_only :: string where
  "answer_only = ''{\"answer\": \"Yes.\"}''"

definition scenario_loads :: "string \<Rightarrow> json option" where
  "scenario_loads = map_of
     [(query_args, PyDict [(''query'', PyStr ''IAMA'')]),
      (empty_args, PyDict []),
      (answer_no_citations,
         PyDict [(''answer'', PyStr ''Yes.''), (''citations'', PyList [])]),
      (answer_blank_citation,
         PyDict [(''answer'', PyStr ''Yes.''),
                 (''citations'', PyList [PyDict [(''text'', PyStr []), (''section'', PyStr [])]])]),
      (answer_one_citation,
         PyDict [(''answer'', PyStr ''I search.''),
                 (''citations'',
                    PyList [PyDict [(''text'', PyStr ''Register''), (''section'', PyStr ''2.1'')]])]),
      (answer_only, PyDict [(''answer'', PyStr ''Yes.'')])]"

definition scenario :: "ChatCompletionMessage \<Rightarrow> string \<Rightarrow> bool \<Rightarrow> string + string \<Rightarrow> env" where
  "scenario first last_content file_exists file_text =
     \<lparr>create = (\<lambda>r. if req_response_format r = None
                      then Inr \<lparr>choices = [first]\<rparr>
                      else Inr \<lparr>choices = [\<lparr>content = Some last_content, tool_calls = None\<rparr>]\<rparr>),
      json_loads = scenario_loads,
      model_json_schema = PyDict [(''title'', PyStr ''HandbookAnswer''), (''type'', PyStr ''object'')],
      handbook_exists = Inr file_exists,
      handbook_read_text = file_text\<rparr>"

definition lookup_call :: "string \<Rightarrow> ToolCall" where
  "lookup_call i = \<lparr>tc_id = i, tc_name = ''search_handbook'', tc_arguments = query_args\<rparr>"

definition unknown_call :: "string \<Rightarrow> ToolCall" where
  "unknown_call args = \<lparr>tc_id = ''call_9'', tc_name = ''delete_files'', tc_arguments = args\<rparr>"

definition handbook_file :: "string + string" where
  "handbook_file = Inr ''# 2.1 Algorithm Register''"

definition no_tool_reply :: ChatCompletionMessage where
  "no_tool_reply = \<lparr>content = Some ''I can search the handbook.'', tool_calls = None\<rparr>"

definition tool_reply :: "ToolCall list \<Rightarrow> ChatCompletionMessage" where
  "tool_reply tcs = \<lparr>content = None, tool_calls = Some tcs\<rparr>"

section \<open>Properties\<close>

subsection \<open>The registry and the loop\<close>

lemma registered_name:
  "AVAILABLE_FUNCTIONS n = Some f \<Longrightarrow> n = ''search_handbook'' \<and> f = call_search_handbook"
  by (simp add: AVAILABLE_FUNCTIONS_def split: if_splits)

lemma search_handbook_registered:
  "AVAILABLE_FUNCTIONS ''search_handbook'' = Some call_search_handbook"
  by (simp add: AVAILABLE_FUNCTIONS_def)

lemma search_handbook_any_query: "search_handbook e v = search_handbook e q"
  by (simp add: search_handbook_def)

lemma call_search_handbook_text:
  "call_search_handbook e args = Inr t \<Longrightarrow> search_handbook e q = Inr t"
  by (auto simp: call_search_handbook_def search_handbook_def
      split: json.splits option.splits if_splits sum.splits)

lemma run_tool_calls_append:
  "run_tool_calls e msgs (xs @ ys) =
     (case run_tool_calls e msgs xs of
        Inl exn \<Rightarrow> Inl exn
      | Inr msgs' \<Rightarrow> run_tool_calls e msgs' ys)"
  by (induction xs arbitrary: msgs) (auto split: option.splits sum.splits)

text \<open>
  A loop that ends normally has appended one tool message per call, in order, and each
  carries the text that \<open>search_handbook\<close> returns.
\<close>

lemma run_tool_calls_step:
  assumes "run_tool_calls e msgs (tc # tcs) = Inr msgs'"
  obtains t where "search_handbook e q = Inr t"
    and "run_tool_calls e (msgs @ [tool_message tc t]) tcs = Inr msgs'"
proof -
  from assms obtain args f t where
    f: "AVAILABLE_FUNCTIONS (tc_name tc) = Some f" and
    t: "f e args = Inr t" and
    rest: "run_tool_calls e (msgs @ [tool_message tc t]) tcs = Inr msgs'"
    by (auto split: option.splits sum.splits)
  from f have "f = call_search_handbook" by (simp add: registered_name)
  with t have "search_handbook e q = Inr t" by (simp add: call_search_handbook_text)
  with rest that show ?thesis by blast
qed

lemma run_tool_calls_messages:
  "run_tool_calls e msgs tcs = Inr msgs' \<Longrightarrow> search_handbook e q = Inr t \<Longrightarrow>
     msgs' = msgs @ map (\<lambda>tc. tool_message tc t) tcs"
proof (induction tcs arbitrary: msgs)
  case Nil
  then show ?case by simp
next
  case (Cons tc tcs)
  from Cons.prems(1) obtain t' where
    t': "search_handbook e q = Inr t'" and
    rest: "run_tool_calls e (msgs @ [tool_message tc t']) tcs = Inr msgs'"
    by (rule run_tool_calls_step)
  from t' Cons.prems(2) have "t' = t" by simp
  with rest have "run_tool_calls e (msgs @ [tool_message tc t]) tcs = Inr msgs'" by simp
  from Cons.IH [OF this Cons.prems(2)] show ?case by simp
qed

lemma run_tool_calls_Inr:
  assumes "run_tool_calls e msgs tcs = Inr msgs'" and "tcs \<noteq> []"
  shows "\<exists>t. search_handbook e q = Inr t \<and>
           msgs' = msgs @ map (\<lambda>tc. tool_message tc t) tcs"
proof -
  from assms(2) obtain tc rest where "tcs = tc # rest" by (cases tcs) auto
  with assms(1) have "run_tool_calls e msgs (tc # rest) = Inr msgs'" by simp
  then obtain t where t: "search_handbook e q = Inr t"
    by (rule run_tool_calls_step)
  from run_tool_calls_messages [OF assms(1) t] t show ?thesis by blast
qed


subsection \<open>Validation and the shape of a run\<close>

lemma those_Some: "those xs = Some ys \<Longrightarrow> xs = map Some ys"
  by (induction xs arbitrary: ys) (auto split: option.splits)

lemma as_str_Some: "as_str v = Some s \<Longrightarrow> v = Some (PyStr s)"
  by (cases v rule: as_str.cases) auto

lemma as_list_Some: "as_list v = Some xs \<Longrightarrow> v = Some (PyList xs)"
  by (cases v rule: as_list.cases) auto

lemma model_validate_Inr:
  "model_validate v = Inr a \<Longrightarrow>
     \<exists>d items. v = PyDict d \<and> map_of d ''answer'' = Some (PyStr (answer a)) \<and>
       map_of d ''citations'' = Some (PyList items) \<and>
       map Some (citations a) = map validate_Citation items"
  by (cases v rule: model_validate.cases)
     (auto split: option.splits dest!: as_str_Some as_list_Some those_Some)

lemma model_validate_error: "model_validate v = Inl exn \<Longrightarrow> exn = ValidationError"
  by (cases v rule: model_validate.cases) (auto split: option.splits)

lemma parse_answer_Inr:
  "parse_answer e c = Inr a \<Longrightarrow>
     \<exists>m others json_string d items.
       choices c = m # others \<and> content m = Some json_string \<and>
       json_loads e json_string = Some (PyDict d) \<and>
       map_of d ''answer'' = Some (PyStr (answer a)) \<and>
       map_of d ''citations'' = Some (PyList items) \<and>
       map Some (citations a) = map validate_Citation items"
  by (auto simp: parse_answer_def split: list.splits option.splits dest!: model_validate_Inr)

lemma structured_answer_Inr:
  "structured_answer e r = Inr a \<Longrightarrow>
     \<exists>c. create e r = Inr c \<and> parse_answer e c = Inr a"
  by (auto simp: structured_answer_def split: sum.splits)

lemma ask_agent_tool_branch:
  assumes "create e (initial_request query) = Inr completion"
    and "choices completion = m # others"
    and "tool_calls m = Some tcs" and "tcs \<noteq> []"
  shows "ask_agent e query =
     (case run_tool_calls e [user_message query, Response m] tcs of
        Inl exn \<Rightarrow> ([initial_request query], Inl exn)
      | Inr msgs \<Rightarrow>
          ([initial_request query, final_request e msgs],
           structured_answer e (final_request e msgs)))"
  using assms by (simp add: ask_agent_def Let_def)

lemma ask_agent_no_tool_branch:
  assumes "create e (initial_request query) = Inr completion"
    and "choices completion = m # others"
    and "requested_calls (tool_calls m) = []"
  shows "ask_agent e query =
     ([initial_request query, direct_request e [user_message query]],
      structured_answer e (direct_request e [user_message query]))"
  using assms by (simp add: ask_agent_def Let_def)

text \<open>The three shapes a run can have.\<close>

lemma ask_agent_cases:
  "(\<exists>exn. ask_agent e query = ([initial_request query], Inl exn)) \<or>
   ask_agent e query =
     ([initial_request query, direct_request e [user_message query]],
      structured_answer e (direct_request e [user_message query])) \<or>
   (\<exists>m tcs t. ask_agent e query =
     ([initial_request query,
       final_request e (user_message query # Response m #
          map (\<lambda>tc. tool_message tc t) tcs)],
      structured_answer e (final_request e (user_message query # Response m #
          map (\<lambda>tc. tool_message tc t) tcs))))"
proof (cases "create e (initial_request query)")
  case (Inl exn)
  then show ?thesis by (simp add: ask_agent_def Let_def)
next
  case (Inr completion)
  show ?thesis
  proof (cases "choices completion")
    case Nil
    with Inr show ?thesis by (simp add: ask_agent_def Let_def)
  next
    case (Cons m others)
    show ?thesis
    proof (cases "requested_calls (tool_calls m) = []")
      case True
      with Inr Cons show ?thesis by (simp add: ask_agent_no_tool_branch)
    next
      case False
      then obtain tcs where tcs: "tool_calls m = Some tcs" "tcs \<noteq> []"
        by (cases "tool_calls m") auto
      note run = ask_agent_tool_branch [OF Inr Cons tcs]
      show ?thesis
      proof (cases "run_tool_calls e [user_message query, Response m] tcs")
        case (Inl exn)
        with run show ?thesis by simp
      next
        case (Inr msgs)
        from run_tool_calls_Inr [OF Inr tcs(2), of PyNone]
        obtain t where "msgs = user_message query # Response m #
            map (\<lambda>tc. tool_message tc t) tcs"
          by auto
        with run Inr show ?thesis by auto
      qed
    qed
  qed
qed

lemma msg_role_user: "msg_role (user_message query) = Some ''user''"
  by (simp add: user_message_def)

lemma msg_role_tool: "msg_role (tool_message tc t) = Some ''tool''"
  by (simp add: tool_message_def)

subsection \<open>Running the scenarios\<close>

lemma scenario_fields:
  "json_loads (scenario first c ex rd) = scenario_loads"
  "handbook_exists (scenario first c ex rd) = Inr ex"
  "handbook_read_text (scenario first c ex rd) = rd"
  by (simp_all add: scenario_def)

lemma scenario_create_initial:
  "create (scenario first c ex rd) (initial_request q) = Inr \<lparr>choices = [first]\<rparr>"
  by (simp add: scenario_def initial_request_def)

lemma scenario_create_final:
  "create (scenario first c ex rd) (final_request e msgs) =
     Inr \<lparr>choices = [\<lparr>content = Some c, tool_calls = None\<rparr>]\<rparr>"
  by (simp add: scenario_def final_request_def)

lemma scenario_create_direct:
  "create (scenario first c ex rd) (direct_request e msgs) =
     Inr \<lparr>choices = [\<lparr>content = Some c, tool_calls = None\<rparr>]\<rparr>"
  by (simp add: scenario_def direct_request_def)

lemmas scenario_texts =
  query_args_def empty_args_def answer_no_citations_def answer_blank_citation_def
  answer_one_citation_def answer_only_def

lemma scenario_loads_query_args:
  "scenario_loads query_args = Some (PyDict [(''query'', PyStr ''IAMA'')])"
  by (simp add: scenario_loads_def)


lemma scenario_loads_not_json: "scenario_loads ''not json'' = None"
  by (simp add: scenario_loads_def scenario_texts)


lemma scenario_loads_answer_blank_citation:
  "scenario_loads answer_blank_citation =
     Some (PyDict [(''answer'', PyStr ''Yes.''),
       (''citations'', PyList [PyDict [(''text'', PyStr []), (''section'', PyStr [])]])])"
  by (simp add: scenario_loads_def scenario_texts)

lemma scenario_loads_answer_one_citation:
  "scenario_loads answer_one_citation =
     Some (PyDict [(''answer'', PyStr ''I search.''),
       (''citations'', PyList [PyDict [(''text'', PyStr ''Register''), (''section'', PyStr ''2.1'')]])])"
  by (simp add: scenario_loads_def scenario_texts)

lemma scenario_loads_answer_only:
  "scenario_loads answer_only = Some (PyDict [(''answer'', PyStr ''Yes.'')])"
  by (simp add: scenario_loads_def scenario_texts)


text \<open>A well-formed call runs \<open>search_handbook\<close> and passes on what it returns or raises.\<close>

lemma well_formed_call_calls_search_handbook:
  assumes "well_formed_call e tc"
  shows "\<exists>args. json_loads e (tc_arguments tc) = Some args \<and>
           AVAILABLE_FUNCTIONS (tc_name tc) = Some call_search_handbook \<and>
           call_search_handbook e args = search_handbook e q"
proof -
  from assms obtain kwargs where
    name: "tc_name tc = ''search_handbook''" and
    args: "json_loads e (tc_arguments tc) = Some (PyDict kwargs)" and
    keys: "map fst kwargs = [''query'']"
    by (auto simp: well_formed_call_def split: option.splits json.splits)
  from keys obtain v where "kwargs = [(''query'', v)]"
    by (cases kwargs) auto
  then have "call_search_handbook e (PyDict kwargs) = search_handbook e v"
    by (simp add: call_search_handbook_def)
  also have "search_handbook e v = search_handbook e q"
    by (rule search_handbook_any_query)
  finally show ?thesis
    using name args by (simp add: search_handbook_registered)
qed

lemma well_formed_call_step:
  assumes "well_formed_call e tc" and "search_handbook e q = Inr t"
  shows "run_tool_calls e msgs (tc # rest) =
           run_tool_calls e (msgs @ [tool_message tc t]) rest"
  using well_formed_call_calls_search_handbook [OF assms(1), of q] assms(2) by auto

lemma well_formed_call_raises:
  assumes "well_formed_call e tc" and "search_handbook e q = Inl exn"
  shows "run_tool_calls e msgs (tc # rest) = Inl exn"
  using well_formed_call_calls_search_handbook [OF assms(1), of q] assms(2) by auto

lemma well_formed_calls_run:
  "list_all (well_formed_call e) tcs \<Longrightarrow> search_handbook e q = Inr t \<Longrightarrow>
     run_tool_calls e msgs tcs = Inr (msgs @ map (\<lambda>tc. tool_message tc t) tcs)"
proof (induction tcs arbitrary: msgs)
  case Nil
  show ?case by simp
next
  case (Cons tc tcs)
  from Cons.prems have "well_formed_call e tc" and rest: "list_all (well_formed_call e) tcs"
    by simp_all
  from well_formed_call_step [OF this(1) Cons.prems(2), of msgs tcs]
    Cons.IH [OF rest Cons.prems(2)]
  show ?case by simp
qed

lemma lookup_call_well_formed: "well_formed_call (scenario first c ex rd) (lookup_call i)"
  by (simp add: well_formed_call_def lookup_call_def scenario_fields scenario_loads_query_args)

lemma lookup_calls_well_formed:
  "list_all (well_formed_call (scenario first c ex rd)) (map lookup_call ids)"
  by (simp add: list_all_iff lookup_call_well_formed)

lemma scenario_handbook_text:
  "search_handbook (scenario first c True handbook_file) q = Inr ''# 2.1 Algorithm Register''"
  by (simp add: search_handbook_def scenario_fields handbook_file_def)



text \<open>
  The tool scenario: lookups that return \<open>t\<close>, then the final answer with content \<open>c\<close>.
\<close>

lemma tool_scenario_run:
  assumes "search_handbook (scenario (tool_reply (map lookup_call ids)) c ex rd) PyNone = Inr t"
    and "ids \<noteq> []"
  shows "ask_agent (scenario (tool_reply (map lookup_call ids)) c ex rd) q =
     ([initial_request q,
       final_request (scenario (tool_reply (map lookup_call ids)) c ex rd)
         (user_message q # Response (tool_reply (map lookup_call ids)) #
          map (\<lambda>i. tool_message (lookup_call i) t) ids)],
      parse_answer (scenario (tool_reply (map lookup_call ids)) c ex rd)
        \<lparr>choices = [\<lparr>content = Some c, tool_calls = None\<rparr>]\<rparr>)"
proof -
  have calls: "tool_calls (tool_reply (map lookup_call ids)) = Some (map lookup_call ids)"
    by (simp add: tool_reply_def)
  from assms(2) have "map lookup_call ids \<noteq> []" by simp
  from ask_agent_tool_branch [OF scenario_create_initial _ calls this]
    well_formed_calls_run [OF lookup_calls_well_formed assms(1)]
  show ?thesis
    by (simp add: structured_answer_def scenario_create_final comp_def
        del: run_tool_calls.simps)
qed

lemma tool_scenario_found:
  "ask_agent (scenario (tool_reply [lookup_call i]) c True handbook_file) q =
     ([initial_request q,
       final_request (scenario (tool_reply [lookup_call i]) c True handbook_file)
         [user_message q, Response (tool_reply [lookup_call i]),
          tool_message (lookup_call i) ''# 2.1 Algorithm Register'']],
      parse_answer (scenario (tool_reply [lookup_call i]) c True handbook_file)
        \<lparr>choices = [\<lparr>content = Some c, tool_calls = None\<rparr>]\<rparr>)"
  using tool_scenario_run [OF scenario_handbook_text, where ids = "[i]"] by simp


lemma structured_answer_fails:
  assumes "create e r = Inr completion"
    and "choices completion = m # others"
    and "content m = Some json_string"
    and "json_loads e json_string = None \<or>
         (\<exists>parsed exn. json_loads e json_string = Some parsed \<and> model_validate parsed = Inl exn)"
  shows "structured_answer e r =
           (if json_loads e json_string = None then Inl JSONDecodeError else Inl ValidationError)"
  using assms
  by (auto simp: structured_answer_def parse_answer_def dest: model_validate_error)


subsection \<open>The lookup tool\<close>

text \<open>
  C9. The result of \<open>search_handbook\<close> does not depend on its query argument: with the
  same state of the handbook file, any two queries (strings or any other value) give the
  same output, the file's content or the same error string.
\<close>

theorem search_handbook_ignores_query:
  "search_handbook e q1 = search_handbook e q2"
  by (simp add: search_handbook_def)

subsection \<open>The requests\<close>

text \<open>
  C8. Every completion request that \<open>ask_agent\<close> issues (the initial one, the final one
  of the tool branch, the direct one of the no-tool branch) has a messages list without a
  system-role entry, and carries the system instruction in the separate
  \<open>system_prompt\<close> keyword argument.
\<close>

theorem no_system_role_message:
  "r \<in> set (fst (ask_agent e query)) \<Longrightarrow>
     list_all (\<lambda>m. msg_role m \<noteq> Some ''system'') (req_messages r) \<and>
     (\<exists>instruction. req_system_prompt r = Some (SYSTEM_PROMPT @ instruction))"
proof -
  assume r: "r \<in> set (fst (ask_agent e query))"
  have init: "list_all (\<lambda>m. msg_role m \<noteq> Some ''system'') (req_messages (initial_request query)) \<and>
     (\<exists>instruction. req_system_prompt (initial_request query) = Some (SYSTEM_PROMPT @ instruction))"
    by (simp add: initial_request_def msg_role_user)
  have direct: "list_all (\<lambda>m. msg_role m \<noteq> Some ''system'')
       (req_messages (direct_request e [user_message query])) \<and>
     (\<exists>instruction. req_system_prompt (direct_request e [user_message query]) =
        Some (SYSTEM_PROMPT @ instruction))"
    by (simp add: direct_request_def msg_role_user)
  have final: "list_all (\<lambda>m. msg_role m \<noteq> Some ''system'')
       (req_messages (final_request e (user_message query # Response m #
          map (\<lambda>tc. tool_message tc t) tcs))) \<and>
     (\<exists>instruction. req_system_prompt (final_request e (user_message query # Response m #
          map (\<lambda>tc. tool_message tc t) tcs)) =
        Some (SYSTEM_PROMPT @ instruction))" for m t tcs
    by (simp add: final_request_def msg_role_user msg_role_tool list_all_iff)
  from ask_agent_cases [of e query] r init direct final show ?thesis
    by (elim disjE exE) auto
qed

theorem no_system_role_message_witness:
  "final_request (scenario (tool_reply [lookup_call ''call_1'']) answer_one_citation True handbook_file)
       [user_message ''What is IAMA?'', Response (tool_reply [lookup_call ''call_1'']),
        tool_message (lookup_call ''call_1'') ''# 2.1 Algorithm Register'']
     \<in> set (fst (ask_agent
         (scenario (tool_reply [lookup_call ''call_1'']) answer_one_citation True handbook_file)
         ''What is IAMA?'')) \<and>
   list_all (\<lambda>m. msg_role m \<noteq> Some ''system'')
     (req_messages (final_request
        (scenario (tool_reply [lookup_call ''call_1'']) answer_one_citation True handbook_file)
        [user_message ''What is IAMA?'', Response (tool_reply [lookup_call ''call_1'']),
         tool_message (lookup_call ''call_1'') ''# 2.1 Algorithm Register''])) \<and>
   (\<exists>instruction. req_system_prompt (final_request
        (scenario (tool_reply [lookup_call ''call_1'']) answer_one_citation True handbook_file)
        [user_message ''What is IAMA?'', Response (tool_reply [lookup_call ''call_1'']),
         tool_message (lookup_call ''call_1'') ''# 2.1 Algorithm Register'']) =
      Some (SYSTEM_PROMPT @ instruction))"
proof -
  let ?E = "scenario (tool_reply [lookup_call ''call_1'']) answer_one_citation True handbook_file"
  let ?r = "final_request ?E
       [user_message ''What is IAMA?'', Response (tool_reply [lookup_call ''call_1'']),
        tool_message (lookup_call ''call_1'') ''# 2.1 Algorithm Register'']"
  have mem: "?r \<in> set (fst (ask_agent ?E ''What is IAMA?''))"
    by (simp add: tool_scenario_found)
  from no_system_role_message [OF mem] mem show ?thesis
    by blast
qed

subsection \<open>The tool branch\<close>

text \<open>
  C4. When \<open>ask_agent\<close> takes the tool branch and sends the final completion request,
  the conversation of that request is the user message, the assistant's tool-invocation
  message as it came, and then exactly one tool-role result message per tool call of the
  model, in the order of the calls, each tagged under \<open>tool_call_id\<close> with the \<open>id\<close> of
  the call it answers and holding the tool's name and the text the tool returned.
\<close>

theorem final_conversation_has_one_result_per_call:
  assumes "create e (initial_request query) = Inr completion"
    and "choices completion = m # others"
    and "tool_calls m = Some tcs" and "tcs \<noteq> []"
    and "fst (ask_agent e query) = [r1, r2]"
  shows "\<exists>function_response_text.
           search_handbook e q = Inr function_response_text \<and>
           req_messages r2 =
             Dict [(''role'', ''user''), (''content'', query)] # Response m #
               map (\<lambda>tool_call.
                      Dict [(''tool_call_id'', tc_id tool_call),
                            (''role'', ''tool''),
                            (''name'', tc_name tool_call),
                            (''content'', function_response_text)]) tcs \<and>
           map msg_role (drop 2 (req_messages r2)) = replicate (length tcs) (Some ''tool'') \<and>
           length (filter (\<lambda>x. msg_role x = Some ''tool'') (req_messages r2)) = length tcs"
proof -
  note run = ask_agent_tool_branch [OF assms(1-4)]
  show ?thesis
  proof (cases "run_tool_calls e [user_message query, Response m] tcs")
    case (Inl exn)
    with run assms(5) show ?thesis by simp
  next
    case (Inr msgs)
    from run_tool_calls_Inr [OF Inr assms(4), of q] obtain t where
      t: "search_handbook e q = Inr t" and
      msgs: "msgs = user_message query # Response m # map (\<lambda>tc. tool_message tc t) tcs"
      by auto
    from run Inr assms(5) have r2: "r2 = final_request e msgs" by simp
    have roles: "map msg_role (map (\<lambda>tc. tool_message tc t) tcs) =
        replicate (length tcs) (Some ''tool'')"
      by (induction tcs) (simp_all add: msg_role_tool)
    have count: "length (filter (\<lambda>x. msg_role x = Some ''tool'')
        (map (\<lambda>tc. tool_message tc t) tcs)) = length tcs"
      by (induction tcs) (simp_all add: msg_role_tool)
    have dicts: "map (\<lambda>tc. tool_message tc t) tcs =
        map (\<lambda>tool_call.
               Dict [(''tool_call_id'', tc_id tool_call), (''role'', ''tool''),
                     (''name'', tc_name tool_call), (''content'', t)]) tcs"
      by (simp add: tool_message_def)
    have user: "user_message query = Dict [(''role'', ''user''), (''content'', query)]"
      by (simp add: user_message_def)
    have "req_messages r2 =
        Dict [(''role'', ''user''), (''content'', query)] # Response m #
          map (\<lambda>tool_call.
                 Dict [(''tool_call_id'', tc_id tool_call), (''role'', ''tool''),
                       (''name'', tc_name tool_call), (''content'', t)]) tcs"
      unfolding r2 msgs dicts user by (simp add: final_request_def)
    moreover have "map msg_role (drop 2 (req_messages r2)) =
        replicate (length tcs) (Some ''tool'')"
      unfolding r2 msgs using roles by (simp add: final_request_def)
    moreover have "length (filter (\<lambda>x. msg_role x = Some ''tool'') (req_messages r2)) =
        length tcs"
      unfolding r2 msgs using count by (simp add: final_request_def msg_role_user)
    ultimately show ?thesis using t by blast
  qed
qed

theorem final_conversation_has_one_result_per_call_witness:
  "create (scenario (tool_reply (map lookup_call [''call_1'', ''call_2''])) answer_one_citation True
       handbook_file) (initial_request ''What is IAMA?'') =
     Inr \<lparr>choices = [tool_reply (map lookup_call [''call_1'', ''call_2''])]\<rparr> \<and>
   tool_calls (tool_reply (map lookup_call [''call_1'', ''call_2''])) =
     Some [\<lparr>tc_id = ''call_1'', tc_name = ''search_handbook'', tc_arguments = query_args\<rparr>,
           \<lparr>tc_id = ''call_2'', tc_name = ''search_handbook'', tc_arguments = query_args\<rparr>] \<and>
   length (fst (ask_agent (scenario (tool_reply (map lookup_call [''call_1'', ''call_2'']))
       answer_one_citation True handbook_file) ''What is IAMA?'')) = 2 \<and>
   search_handbook (scenario (tool_reply (map lookup_call [''call_1'', ''call_2'']))
       answer_one_citation True handbook_file) (PyStr ''IAMA'') =
     Inr ''# 2.1 Algorithm Register'' \<and>
   req_messages (fst (ask_agent (scenario (tool_reply (map lookup_call [''call_1'', ''call_2'']))
       answer_one_citation True handbook_file) ''What is IAMA?'') ! 1) =
     [Dict [(''role'', ''user''), (''content'', ''What is IAMA?'')],
      Response (tool_reply (map lookup_call [''call_1'', ''call_2''])),
      Dict [(''tool_call_id'', ''call_1''), (''role'', ''tool''),
            (''name'', ''search_handbook''), (''content'', ''# 2.1 Algorithm Register'')],
      Dict [(''tool_call_id'', ''call_2''), (''role'', ''tool''),
            (''name'', ''search_handbook''), (''content'', ''# 2.1 Algorithm Register'')]]"
proof -
  let ?ids = "[''call_1'', ''call_2'']"
  let ?m = "tool_reply (map lookup_call ?ids)"
  let ?E = "scenario ?m answer_one_citation True handbook_file"
  let ?Q = "''What is IAMA?''"
  let ?r2 = "final_request ?E (user_message ?Q # Response ?m #
      map (\<lambda>i. tool_message (lookup_call i) ''# 2.1 Algorithm Register'') ?ids)"
  have found: "search_handbook ?E (PyStr ''IAMA'') = Inr ''# 2.1 Algorithm Register''"
    by (rule scenario_handbook_text)
  have h1: "create ?E (initial_request ?Q) = Inr \<lparr>choices = [?m]\<rparr>"
    by (rule scenario_create_initial)
  have h2: "choices \<lparr>choices = [?m]\<rparr> = ?m # []" by simp
  have h3: "tool_calls ?m = Some (map lookup_call ?ids)"
    by (simp add: tool_reply_def)
  have h4: "map lookup_call ?ids \<noteq> []" by simp
  have h5: "fst (ask_agent ?E ?Q) = [initial_request ?Q, ?r2]"
    using tool_scenario_run [OF scenario_handbook_text, where ids = ?ids] by simp
  from final_conversation_has_one_result_per_call
    [OF h1 h2 h3 h4 h5, of "PyStr ''IAMA''"] found
  have "req_messages ?r2 =
      Dict [(''role'', ''user''), (''content'', ?Q)] # Response ?m #
        map (\<lambda>tool_call.
               Dict [(''tool_call_id'', tc_id tool_call), (''role'', ''tool''),
                     (''name'', tc_name tool_call),
                     (''content'', ''# 2.1 Algorithm Register'')]) (map lookup_call ?ids)"
    by auto
  with h1 h3 h5 found show ?thesis
    by (simp add: lookup_call_def)
qed

text \<open>
  C10. In the tool branch the arguments of a tool call are JSON-parsed before its name
  is looked up in the registry. So when the loop reaches a call whose arguments are not
  valid JSON, \<open>ask_agent\<close> ends with the JSON parse error whatever the call's name is,
  also when the name is not registered: the unknown-function error is not reached for
  that call, and only the initial request has been issued.
\<close>

theorem arguments_parsed_before_lookup:
  assumes "create e (initial_request query) = Inr completion"
    and "choices completion = m # others"
    and "tool_calls m = Some (earlier @ tc # later)"
    and "run_tool_calls e [user_message query, Response m] earlier = Inr msgs"
    and "json_loads e (tc_arguments tc) = None"
  shows "run_tool_calls e msgs (tc # later) = Inl JSONDecodeError \<and>
         ask_agent e query = ([initial_request query], Inl JSONDecodeError)"
proof -
  from assms(5) have step: "run_tool_calls e msgs (tc # later) = Inl JSONDecodeError"
    by simp
  have "earlier @ tc # later \<noteq> []" by simp
  from ask_agent_tool_branch [OF assms(1-3) this] assms(4) step show ?thesis
    by (simp add: run_tool_calls_append del: run_tool_calls.simps)
qed

theorem arguments_parsed_before_lookup_witness:
  "AVAILABLE_FUNCTIONS (tc_name (unknown_call ''not json'')) = None \<and>
   json_loads (scenario (tool_reply [unknown_call ''not json'']) answer_one_citation True
       handbook_file) (tc_arguments (unknown_call ''not json'')) = None \<and>
   ask_agent (scenario (tool_reply [unknown_call ''not json'']) answer_one_citation True
       handbook_file) ''What is IAMA?'' =
     ([initial_request ''What is IAMA?''], Inl JSONDecodeError)"
proof -
  let ?m = "tool_reply [unknown_call ''not json'']"
  let ?E = "scenario ?m answer_one_citation True handbook_file"
  let ?Q = "''What is IAMA?''"
  have h1: "create ?E (initial_request ?Q) = Inr \<lparr>choices = [?m]\<rparr>"
    by (rule scenario_create_initial)
  have h2: "choices \<lparr>choices = [?m]\<rparr> = ?m # []" by simp
  have h3: "tool_calls ?m = Some ([] @ unknown_call ''not json'' # [])"
    by (simp add: tool_reply_def)
  have h4: "run_tool_calls ?E [user_message ?Q, Response ?m] [] =
      Inr [user_message ?Q, Response ?m]"
    by simp
  have h5: "json_loads ?E (tc_arguments (unknown_call ''not json'')) = None"
    by (simp add: scenario_fields unknown_call_def scenario_loads_not_json)
  have unregistered: "AVAILABLE_FUNCTIONS (tc_name (unknown_call ''not json'')) = None"
    by (simp add: AVAILABLE_FUNCTIONS_def unknown_call_def)
  from arguments_parsed_before_lookup [OF h1 h2 h3 h4 h5] h5 unregistered
  show ?thesis by simp
qed

subsection \<open>Errors\<close>




text \<open>
  C3. When the content of a completion response that \<open>ask_agent\<close> parses (the response
  to the final request of the tool branch or to the direct request of the no-tool branch,
  the two requests with a response format) fails JSON parsing or fails validation against
  \<open>HandbookAnswer\<close>, the call raises that error: no answer is returned, so none that is
  partly filled in.
\<close>

theorem unparsable_answer_raises:
  assumes "r \<in> set (fst (ask_agent e query))"
    and "req_response_format r \<noteq> None"
    and "create e r = Inr completion"
    and "choices completion = m # others"
    and "content m = Some json_string"
    and "json_loads e json_string = None \<or>
         (\<exists>parsed exn. json_loads e json_string = Some parsed \<and> model_validate parsed = Inl exn)"
  shows "snd (ask_agent e query) =
           (if json_loads e json_string = None then Inl JSONDecodeError else Inl ValidationError)"
proof -
  note fails = structured_answer_fails [OF assms(3-6)]
  from assms(2) have not_initial: "r \<noteq> initial_request query"
    by (auto simp: initial_request_def)
  from ask_agent_cases [of e query] show ?thesis
  proof (elim disjE exE)
    fix exn
    assume "ask_agent e query = ([initial_request query], Inl exn)"
    with assms(1) not_initial show ?thesis by simp
  next
    assume "ask_agent e query =
      ([initial_request query, direct_request e [user_message query]],
       structured_answer e (direct_request e [user_message query]))"
    with assms(1) not_initial fails show ?thesis by auto
  next
    fix m' tcs t
    assume "ask_agent e query =
      ([initial_request query,
        final_request e (user_message query # Response m' #
          map (\<lambda>tc. tool_message tc t) tcs)],
       structured_answer e (final_request e (user_message query # Response m' #
          map (\<lambda>tc. tool_message tc t) tcs)))"
    with assms(1) not_initial fails show ?thesis by auto
  qed
qed

theorem unparsable_answer_raises_witness:
  "direct_request (scenario no_tool_reply ''not json'' True handbook_file)
       [user_message ''What can you do?'']
     \<in> set (fst (ask_agent (scenario no_tool_reply ''not json'' True handbook_file)
         ''What can you do?'')) \<and>
   json_loads (scenario no_tool_reply ''not json'' True handbook_file) ''not json'' = None \<and>
   snd (ask_agent (scenario no_tool_reply ''not json'' True handbook_file) ''What can you do?'') =
     Inl JSONDecodeError \<and>
   json_loads (scenario (tool_reply [lookup_call ''call_1'']) answer_only True handbook_file)
       answer_only = Some (PyDict [(''answer'', PyStr ''Yes.'')]) \<and>
   model_validate (PyDict [(''answer'', PyStr ''Yes.'')]) = Inl ValidationError \<and>
   snd (ask_agent (scenario (tool_reply [lookup_call ''call_1'']) answer_only True handbook_file)
       ''What is IAMA?'') = Inl ValidationError"
proof -
  let ?E = "scenario no_tool_reply ''not json'' True handbook_file"
  let ?Q = "''What can you do?''"
  let ?r = "direct_request ?E [user_message ?Q]"
  have idle: "requested_calls (tool_calls no_tool_reply) = []"
    by (simp add: no_tool_reply_def)
  from ask_agent_no_tool_branch [OF scenario_create_initial _ idle]
  have run: "ask_agent ?E ?Q = ([initial_request ?Q, ?r], structured_answer ?E ?r)"
    by simp
  then have h1: "?r \<in> set (fst (ask_agent ?E ?Q))" by simp
  have h2: "req_response_format ?r \<noteq> None" by (simp add: direct_request_def)
  have h3: "create ?E ?r = Inr \<lparr>choices = [\<lparr>content = Some ''not json'', tool_calls = None\<rparr>]\<rparr>"
    by (rule scenario_create_direct)
  have h4: "choices \<lparr>choices = [\<lparr>content = Some ''not json'', tool_calls = None\<rparr>]\<rparr> =
      \<lparr>content = Some ''not json'', tool_calls = None\<rparr> # []"
    by simp
  have h5: "content \<lparr>content = Some ''not json'', tool_calls = None\<rparr> = Some ''not json''"
    by simp
  have h6: "json_loads ?E ''not json'' = None"
    by (simp add: scenario_fields scenario_loads_not_json)
  from unparsable_answer_raises [OF h1 h2 h3 h4 h5 disjI1 [OF h6]] h6
  have first: "snd (ask_agent ?E ?Q) = Inl JSONDecodeError" by simp
  let ?F = "scenario (tool_reply [lookup_call ''call_1'']) answer_only True handbook_file"
  let ?P = "''What is IAMA?''"
  let ?s = "final_request ?F
      [user_message ?P, Response (tool_reply [lookup_call ''call_1'']),
       tool_message (lookup_call ''call_1'') ''# 2.1 Algorithm Register'']"
  have g1: "?s \<in> set (fst (ask_agent ?F ?P))" by (simp add: tool_scenario_found)
  have g2: "req_response_format ?s \<noteq> None" by (simp add: final_request_def)
  have g3: "create ?F ?s = Inr \<lparr>choices = [\<lparr>content = Some answer_only, tool_calls = None\<rparr>]\<rparr>"
    by (rule scenario_create_final)
  have g4: "choices \<lparr>choices = [\<lparr>content = Some answer_only, tool_calls = None\<rparr>]\<rparr> =
      \<lparr>content = Some answer_only, tool_calls = None\<rparr> # []"
    by simp
  have g5: "content \<lparr>content = Some answer_only, tool_calls = None\<rparr> = Some answer_only"
    by simp
  have g6: "json_loads ?F answer_only = Some (PyDict [(''answer'', PyStr ''Yes.'')])"
    by (simp add: scenario_fields scenario_loads_answer_only)
  have g7: "model_validate (PyDict [(''answer'', PyStr ''Yes.'')]) = Inl ValidationError"
    by simp
  from g6 g7 have g8: "json_loads ?F answer_only = None \<or>
      (\<exists>parsed exn. json_loads ?F answer_only = Some parsed \<and> model_validate parsed = Inl exn)"
    by blast
  from unparsable_answer_raises [OF g1 g2 g3 g4 g5 g8] g6
  have second: "snd (ask_agent ?F ?P) = Inl ValidationError" by simp
  from h1 h6 first g6 g7 second show ?thesis by simp
qed

subsection \<open>A failing lookup\<close>

text \<open>
  C5. The lookup is written to turn a failure of the handbook file into an error string
  instead of an exception (its docstring: the content \<open>or an error message\<close>; the read
  is wrapped in \<open>except Exception\<close>), and \<open>ask_agent\<close> then passes that text on and goes
  to the final request. The test \<open>HANDBOOK_PATH.exists()\<close> of line 53 stands before the
  \<open>try\<close>, however. In the run below the directory of the handbook may not be searched,
  so \<open>exists()\<close> raises: \<open>search_handbook\<close> raises too, no tool message is appended, and
  \<open>ask_agent\<close> ends with that exception after the initial request, without a final one.
\<close>

theorem unsearchable_handbook_directory_raises:
  "handbook_exists
     ((scenario (tool_reply [lookup_call ''call_1'']) answer_one_citation True handbook_file)
        \<lparr>handbook_exists := Inl ''Permission denied''\<rparr>) = Inl ''Permission denied'' \<and>
   search_handbook
     ((scenario (tool_reply [lookup_call ''call_1'']) answer_one_citation True handbook_file)
        \<lparr>handbook_exists := Inl ''Permission denied''\<rparr>) (PyStr ''IAMA'') =
     Inl (OSError ''Permission denied'') \<and>
   ask_agent
     ((scenario (tool_reply [lookup_call ''call_1'']) answer_one_citation True handbook_file)
        \<lparr>handbook_exists := Inl ''Permission denied''\<rparr>) ''What is IAMA?'' =
     ([initial_request ''What is IAMA?''], Inl (OSError ''Permission denied''))"
proof -
  let ?m = "tool_reply [lookup_call ''call_1'']"
  let ?E = "(scenario ?m answer_one_citation True handbook_file)
      \<lparr>handbook_exists := Inl ''Permission denied''\<rparr>"
  let ?Q = "''What is IAMA?''"
  have raises: "search_handbook ?E q = Inl (OSError ''Permission denied'')" for q
    by (simp add: search_handbook_def)
  have "well_formed_call ?E (lookup_call ''call_1'')"
    by (simp add: well_formed_call_def lookup_call_def scenario_fields
        scenario_loads_query_args)
  from well_formed_call_raises [OF this raises]
  have loop: "run_tool_calls ?E [user_message ?Q, Response ?m] [lookup_call ''call_1''] =
      Inl (OSError ''Permission denied'')" .
  have h1: "create ?E (initial_request ?Q) = Inr \<lparr>choices = [?m]\<rparr>"
    by (simp add: scenario_create_initial)
  have h2: "choices \<lparr>choices = [?m]\<rparr> = ?m # []" by simp
  have h3: "tool_calls ?m = Some [lookup_call ''call_1'']" by (simp add: tool_reply_def)
  have h4: "[lookup_call ''call_1''] \<noteq> []" by simp
  from ask_agent_tool_branch [OF h1 h2 h3 h4] loop
  have "ask_agent ?E ?Q = ([initial_request ?Q], Inl (OSError ''Permission denied''))"
    by (simp del: run_tool_calls.simps)
  with raises [of "PyStr ''IAMA''"] show ?thesis by simp
qed




subsection \<open>Citations\<close>




text \<open>
  C7, as amended. In a call that takes the tool branch and returns, the final request
  instructs the model to cite 2 to 4 excerpts, and the citations of the returned
  \<open>HandbookAnswer\<close> are exactly the entries of the \<open>citations\<close> array of the model's
  final JSON reply, in order, each validated as a \<open>Citation\<close> with a string excerpt and
  a string section. \<open>ask_agent\<close> bounds neither their number nor the length of the two
  strings.
\<close>

theorem tool_answer_citations_come_from_the_reply:
  assumes "create e (initial_request query) = Inr completion"
    and "choices completion = m # others"
    and "tool_calls m = Some tcs" and "tcs \<noteq> []"
    and "ask_agent e query = (trace, Inr a)"
  shows "\<exists>r2 reply m' others' json_string d items.
           trace = [initial_request query, r2] \<and>
           req_system_prompt r2 = Some (SYSTEM_PROMPT @ FINAL_INSTRUCTION) \<and>
           create e r2 = Inr reply \<and>
           choices reply = m' # others' \<and>
           content m' = Some json_string \<and>
           json_loads e json_string = Some (PyDict d) \<and>
           map_of d ''citations'' = Some (PyList items) \<and>
           map Some (citations a) = map validate_Citation items"
proof -
  note run = ask_agent_tool_branch [OF assms(1-4)]
  show ?thesis
  proof (cases "run_tool_calls e [user_message query, Response m] tcs")
    case (Inl exn)
    with run assms(5) show ?thesis by simp
  next
    case (Inr msgs)
    with run assms(5)
    have trace: "trace = [initial_request query, final_request e msgs]"
      and result: "structured_answer e (final_request e msgs) = Inr a"
      by simp_all
    from structured_answer_Inr [OF result] obtain reply where
      reply: "create e (final_request e msgs) = Inr reply" and
      parsed: "parse_answer e reply = Inr a"
      by blast
    from parse_answer_Inr [OF parsed] obtain m' others' json_string d items where
      shape: "choices reply = m' # others'" "content m' = Some json_string"
        "json_loads e json_string = Some (PyDict d)"
        "map_of d ''citations'' = Some (PyList items)"
        "map Some (citations a) = map validate_Citation items"
      by blast
    have "req_system_prompt (final_request e msgs) = Some (SYSTEM_PROMPT @ FINAL_INSTRUCTION)"
      by (simp add: final_request_def)
    with trace reply shape show ?thesis by blast
  qed
qed

theorem tool_answer_citations_come_from_the_reply_witness:
  "tool_calls (tool_reply [lookup_call ''call_1'']) = Some [lookup_call ''call_1''] \<and>
   snd (ask_agent (scenario (tool_reply [lookup_call ''call_1'']) answer_one_citation True
       handbook_file) ''What is IAMA?'') =
     Inr \<lparr>answer = ''I search.'',
          citations = [\<lparr>citation_text = ''Register'', citation_section = ''2.1''\<rparr>]\<rparr> \<and>
   (\<exists>r2 reply m' others' json_string d items.
       fst (ask_agent (scenario (tool_reply [lookup_call ''call_1'']) answer_one_citation True
         handbook_file) ''What is IAMA?'') = [initial_request ''What is IAMA?'', r2] \<and>
       req_system_prompt r2 = Some (SYSTEM_PROMPT @ FINAL_INSTRUCTION) \<and>
       create (scenario (tool_reply [lookup_call ''call_1'']) answer_one_citation True
         handbook_file) r2 = Inr reply \<and>
       choices reply = m' # others' \<and>
       content m' = Some json_string \<and>
       json_loads (scenario (tool_reply [lookup_call ''call_1'']) answer_one_citation True
         handbook_file) json_string = Some (PyDict d) \<and>
       map_of d ''citations'' = Some (PyList items) \<and>
       [Some \<lparr>citation_text = ''Register'', citation_section = ''2.1''\<rparr>] =
         map validate_Citation items)"
proof -
  let ?m = "tool_reply [lookup_call ''call_1'']"
  let ?E = "scenario ?m answer_one_citation True handbook_file"
  let ?Q = "''What is IAMA?''"
  let ?a = "\<lparr>answer = ''I search.'',
      citations = [\<lparr>citation_text = ''Register'', citation_section = ''2.1''\<rparr>]\<rparr>"
  have h1: "create ?E (initial_request ?Q) = Inr \<lparr>choices = [?m]\<rparr>"
    by (rule scenario_create_initial)
  have h2: "choices \<lparr>choices = [?m]\<rparr> = ?m # []" by simp
  have h3: "tool_calls ?m = Some [lookup_call ''call_1'']" by (simp add: tool_reply_def)
  have h4: "[lookup_call ''call_1''] \<noteq> []" by simp
  have result: "snd (ask_agent ?E ?Q) = Inr ?a"
    by (simp add: tool_scenario_found parse_answer_def scenario_fields
        scenario_loads_answer_one_citation)
  then have h5: "ask_agent ?E ?Q = (fst (ask_agent ?E ?Q), Inr ?a)"
    by (metis prod.collapse)
  from tool_answer_citations_come_from_the_reply [OF h1 h2 h3 h4 h5] h3 result
  show ?thesis by simp
qed

text \<open>
  The claim as stated fails: the lookup returns the handbook's text, the call takes the
  tool branch, and the returned answer has one citation, whose excerpt and section are
  both empty.
\<close>

theorem tool_answer_with_one_blank_citation:
  "search_handbook (scenario (tool_reply [lookup_call ''call_1'']) answer_blank_citation True
       handbook_file) (PyStr ''IAMA'') = Inr ''# 2.1 Algorithm Register'' \<and>
   ask_agent (scenario (tool_reply [lookup_call ''call_1'']) answer_blank_citation True
       handbook_file)
       ''What are the requirements for registering an AI system in the Algorithm Register?'' =
     ([initial_request
         ''What are the requirements for registering an AI system in the Algorithm Register?'',
       final_request (scenario (tool_reply [lookup_call ''call_1'']) answer_blank_citation True
           handbook_file)
         [user_message
            ''What are the requirements for registering an AI system in the Algorithm Register?'',
          Response (tool_reply [lookup_call ''call_1'']),
          tool_message (lookup_call ''call_1'') ''# 2.1 Algorithm Register'']],
      Inr \<lparr>answer = ''Yes.'',
           citations = [\<lparr>citation_text = [], citation_section = []\<rparr>]\<rparr>)"
  by (simp add: tool_scenario_found scenario_handbook_text parse_answer_def scenario_fields
      scenario_loads_answer_blank_citation)

end
